theory Spec2Isabelle
  imports Main "HOL-Library.AList"
begin

section \<open>Python values shared by the whole script\<close>

subsection \<open>Exceptions\<close>

text \<open>
  The script tells three kinds of handler apart: a bare \<^verbatim>\<open>except:\<close> (in
  \<^verbatim>\<open>check_ollama\<close>), \<^verbatim>\<open>except Exception\<close> (everywhere else) and
  \<^verbatim>\<open>except KeyboardInterrupt\<close> (in the chat loop). The model therefore keeps
  Python's split of \<^verbatim>\<open>BaseException\<close>: \<open>ValueError\<close> and
  \<open>LibraryError\<close> (any other class derived from \<^verbatim>\<open>Exception\<close>, raised by one
  of the libraries) carry the text that \<^verbatim>\<open>str(e)\<close> gives, while
  \<open>KeyboardInterrupt\<close> and \<open>SystemExit\<close> are outside \<^verbatim>\<open>Exception\<close>.
\<close>

datatype exn =
    ValueError string
  | LibraryError string
  | KeyboardInterrupt
  | SystemExit

fun is_Exception :: "exn \<Rightarrow> bool" where
  "is_Exception (ValueError _) = True"
| "is_Exception (LibraryError _) = True"
| "is_Exception KeyboardInterrupt = False"
| "is_Exception SystemExit = False"

fun str_exn :: "exn \<Rightarrow> string" where
  "str_exn (ValueError m) = m"
| "str_exn (LibraryError m) = m"
| "str_exn KeyboardInterrupt = []"
| "str_exn SystemExit = []"

subsection \<open>Strings\<close>

text \<open>
  \<^verbatim>\<open>str.lower\<close> on the ASCII range: the capitals \<open>A\<close> to \<open>Z\<close> (codes 65 to 90)
  move to the small letters, every other character stays. Characters beyond ASCII are
  kept as they are by the model; in Python their lower-case forms are never made of
  ASCII letters of the exit keywords alone, so the comparison with a keyword comes out
  the same.
\<close>

definition lower_char :: "char \<Rightarrow> char" where
  "lower_char c =
     (let n = (of_char c :: nat) in if 65 \<le> n \<and> n \<le> 90 then char_of (n + 32) else c)"

definition str_lower :: "string \<Rightarrow> string" where
  "str_lower s = map lower_char s"

text \<open>\<^verbatim>\<open>sep.join(xs)\<close>.\<close>

fun join :: "string \<Rightarrow> string list \<Rightarrow> string" where
  "join sep [] = []"
| "join sep [x] = x"
| "join sep (x # y # ys) = x @ sep @ join sep (y # ys)"

text \<open>
  The glyphs of the console messages, written as their UTF-8 bytes.
\<close>

definition glyph_check :: string where    \<comment> \<open>U+2713\<close>
  "glyph_check = [CHR 0xE2, CHR 0x9C, CHR 0x93]"

definition glyph_ballot :: string where   \<comment> \<open>U+2717\<close>
  "glyph_ballot = [CHR 0xE2, CHR 0x9C, CHR 0x97]"

definition glyph_done :: string where     \<comment> \<open>U+2705\<close>
  "glyph_done = [CHR 0xE2, CHR 0x9C, CHR 0x85]"

definition glyph_cross :: string where    \<comment> \<open>U+274C\<close>
  "glyph_cross = [CHR 0xE2, CHR 0x9D, CHR 0x8C]"

definition glyph_wrench :: string where   \<comment> \<open>U+1F527\<close>
  "glyph_wrench = [CHR 0xF0, CHR 0x9F, CHR 0x94, CHR 0xA7]"

definition glyph_folder :: string where   \<comment> \<open>U+1F4C2\<close>
  "glyph_folder = [CHR 0xF0, CHR 0x9F, CHR 0x93, CHR 0x82]"

definition glyph_speech :: string where   \<comment> \<open>U+1F4AC\<close>
  "glyph_speech = [CHR 0xF0, CHR 0x9F, CHR 0x92, CHR 0xAC]"

definition glyph_bulb :: string where     \<comment> \<open>U+1F4A1\<close>
  "glyph_bulb = [CHR 0xF0, CHR 0x9F, CHR 0x92, CHR 0xA1]"

definition glyph_books :: string where    \<comment> \<open>U+1F4DA\<close>
  "glyph_books = [CHR 0xF0, CHR 0x9F, CHR 0x93, CHR 0x9A]"

definition glyph_stop :: string where     \<comment> \<open>U+1F6D1\<close>
  "glyph_stop = [CHR 0xF0, CHR 0x9F, CHR 0x9B, CHR 0x91]"

definition glyph_red :: string where      \<comment> \<open>U+1F534\<close>
  "glyph_red = [CHR 0xF0, CHR 0x9F, CHR 0x94, CHR 0xB4]"

definition e_circumflex :: string where   \<comment> \<open>U+00EA\<close>
  "e_circumflex = [CHR 0xC3, CHR 0xAA]"

definition newline :: string where
  "newline = [CHR 0x0A]"

subsection \<open>Documents and library handles\<close>

text \<open>
  A langchain \<^verbatim>\<open>Document\<close>: its text and its metadata dictionary (an association
  list, read with \<open>map_of\<close>).
\<close>

record document =
  page_content :: string
  metadata :: "(string \<times> string) list"

text \<open>The dictionary that \<^verbatim>\<open>qa_chain.invoke\<close> returns.\<close>

record qa_result =
  result :: string
  source_documents :: "document list"

text \<open>One value of \<^verbatim>\<open>unique_sources\<close>.\<close>

record source_entry =
  source :: string
  content :: string

datatype loader = PyPDFLoader | Docx2txtLoader | UnstructuredExcelLoader | UnstructuredFileLoader

text \<open>
  The handles built by the libraries: the vector store made from the chunks, the
  retriever over it and the question-answering chain over the retriever.
\<close>

datatype chroma = Chroma "document list"

datatype retriever = Retriever chroma

datatype chain = RetrievalQA retriever

text \<open>
  The object state of \<^verbatim>\<open>DocumentChatbot\<close>. The fields \<^verbatim>\<open>embeddings\<close>,
  \<^verbatim>\<open>llm\<close> and \<^verbatim>\<open>text_splitter\<close> are set once in the constructor and only
  handed back to the libraries; what those libraries answer is part of the
  environment below. \<^verbatim>\<open>vector_db\<close> is \<open>None\<close> or a store; the test
  \<^verbatim>\<open>not self.vector_db\<close> is taken as the test for \<open>None\<close>.
\<close>

record chatbot =
  vector_db :: "chroma option"

section \<open>The world outside the script\<close>

text \<open>
  Every effect of the script is recorded, in order, in a trace: what it prints on the
  console and each call it makes to a library, the file system, the network or the
  prompt.
\<close>

datatype event =
    Print string
  | PrintPanel string "string option" string
  | RequestsGet
  | NewEmbeddings
  | NewOllama
  | NewTextSplitter
  | PathExists string
  | Glob string
  | Load loader string
  | SplitDocuments "document list"
  | FromDocuments "document list"
  | AsRetriever chroma
  | FromChainType retriever
  | Invoke chain string
  | Prompt

type_synonym world = "event list"

text \<open>
  The environment says how each outside call ends, given everything the script has
  done so far (the trace before the call): with a value, or with a raised exception
  (\<open>Inl\<close>). A constructor call either raises (\<open>Some e\<close>) or builds its handle
  (\<open>None\<close>). \<open>requests_get\<close> gives the status code of the response.
\<close>

record env =
  requests_get :: "world \<Rightarrow> exn + int"
  new_embeddings :: "world \<Rightarrow> exn option"
  new_ollama :: "world \<Rightarrow> exn option"
  new_text_splitter :: "world \<Rightarrow> exn option"
  path_exists :: "world \<Rightarrow> string \<Rightarrow> bool"
  glob :: "world \<Rightarrow> string \<Rightarrow> string list"
  load :: "world \<Rightarrow> loader \<Rightarrow> string \<Rightarrow> exn + document list"
  split_documents :: "world \<Rightarrow> document list \<Rightarrow> exn + document list"
  from_documents :: "world \<Rightarrow> document list \<Rightarrow> exn option"
  as_retriever :: "world \<Rightarrow> chroma \<Rightarrow> exn option"
  from_chain_type :: "world \<Rightarrow> retriever \<Rightarrow> exn option"
  invoke :: "world \<Rightarrow> chain \<Rightarrow> string \<Rightarrow> exn + qa_result"
  prompt :: "world \<Rightarrow> exn + string"

section \<open>\<^verbatim>\<open>check_ollama\<close>\<close>

text \<open>
  The body of the \<^verbatim>\<open>try\<close>: the request is made, and its status code compared
  with 200.
\<close>

definition check_ollama_try :: "env \<Rightarrow> world \<Rightarrow> (exn + bool) \<times> world" where
  "check_ollama_try env w =
     (case requests_get env w of
        Inl e \<Rightarrow> (Inl e, w @ [RequestsGet])
      | Inr status_code \<Rightarrow> (Inr (status_code = 200), w @ [RequestsGet]))"

text \<open>The bare \<^verbatim>\<open>except:\<close> takes every exception and returns \<^verbatim>\<open>False\<close>.\<close>

definition check_ollama :: "env \<Rightarrow> world \<Rightarrow> (exn + bool) \<times> world" where
  "check_ollama env w =
     (case check_ollama_try env w of
        (Inl e, w') \<Rightarrow> (Inr False, w')
      | (Inr b, w') \<Rightarrow> (Inr b, w'))"

section \<open>\<^verbatim>\<open>DocumentChatbot\<close>\<close>

subsection \<open>The constructor\<close>

text \<open>
  The three library objects are built in turn; the first constructor that raises ends
  the \<^verbatim>\<open>try\<close> body. On success \<^verbatim>\<open>vector_db\<close> is \<^verbatim>\<open>None\<close> and the success
  line is printed.
\<close>

definition init_try :: "env \<Rightarrow> world \<Rightarrow> (exn + chatbot) \<times> world" where
  "init_try env w =
     (let w1 = w @ [NewEmbeddings] in
      case new_embeddings env w of
        Some e \<Rightarrow> (Inl e, w1)
      | None \<Rightarrow>
          (let w2 = w1 @ [NewOllama] in
           case new_ollama env w1 of
             Some e \<Rightarrow> (Inl e, w2)
           | None \<Rightarrow>
               (let w3 = w2 @ [NewTextSplitter] in
                case new_text_splitter env w2 of
                  Some e \<Rightarrow> (Inl e, w3)
                | None \<Rightarrow>
                    (Inr \<lparr>vector_db = None\<rparr>,
                     w3 @ [Print (''[green]'' @ glyph_done @ '' Models loaded successfully[/]'')]))))"

text \<open>
  \<^verbatim>\<open>except Exception as e\<close>: the error is printed and raised again. An exception
  outside \<^verbatim>\<open>Exception\<close> passes the handler untouched.
\<close>

definition DocumentChatbot :: "env \<Rightarrow> world \<Rightarrow> (exn + chatbot) \<times> world" where
  "DocumentChatbot env w =
     (case init_try env w of
        (Inr self, w') \<Rightarrow> (Inr self, w')
      | (Inl e, w') \<Rightarrow>
          if is_Exception e
          then (Inl e, w' @ [Print (''[red]'' @ glyph_cross @ '' Initialization error: ''
                                     @ str_exn e @ ''[/]'')])
          else (Inl e, w'))"

subsection \<open>\<^verbatim>\<open>load_documents\<close>\<close>

text \<open>
  \<^verbatim>\<open>file_path.name\<close> is the last component of the path, \<^verbatim>\<open>file_path.suffix\<close>
  the part of the name from its last dot on, empty when the name has no dot, starts
  with its only dot or ends with a dot.
\<close>

definition path_name :: "string \<Rightarrow> string" where
  "path_name p = rev (takeWhile (\<lambda>c. c \<noteq> CHR ''/'') (rev p))"

definition path_suffix :: "string \<Rightarrow> string" where
  "path_suffix p =
     (let n = path_name p;
          ext = rev (takeWhile (\<lambda>c. c \<noteq> CHR ''.'') (rev n))
      in if CHR ''.'' \<in> set n \<and> ext \<noteq> [] \<and> length ext + 1 < length n
         then CHR ''.'' # ext else [])"

definition loaders :: "(string \<times> loader) list" where
  "loaders =
     [(''.pdf'', PyPDFLoader),
      (''.docx'', Docx2txtLoader),
      (''.xlsx'', UnstructuredExcelLoader),
      (''.doc'', Docx2txtLoader),
      (''.xls'', UnstructuredExcelLoader)]"

text \<open>The loader chosen for a file, and the line printed when it has loaded.\<close>

definition loader_for :: "string \<Rightarrow> loader" where
  "loader_for file_path =
     (case map_of loaders (str_lower (path_suffix file_path)) of
        Some l \<Rightarrow> l
      | None \<Rightarrow> UnstructuredFileLoader)"

definition loaded_line :: "string \<Rightarrow> string" where
  "loaded_line file_path =
     (case map_of loaders (str_lower (path_suffix file_path)) of
        Some l \<Rightarrow> ''[green]'' @ glyph_check @ ''[/] '' @ path_name file_path
      | None \<Rightarrow> ''[yellow]?[/] '' @ path_name file_path @ '' (generic format)'')"

definition failed_line :: "string \<Rightarrow> exn \<Rightarrow> string" where
  "failed_line file_path e =
     ''[red]'' @ glyph_ballot @ ''[/] '' @ path_name file_path
       @ '' (error: '' @ str_exn e @ '')''"

text \<open>
  The loop over the entries of the folder, with \<^verbatim>\<open>documents\<close> as accumulator.
  A loader that raises an \<^verbatim>\<open>Exception\<close> leaves \<^verbatim>\<open>documents\<close> as it was, its
  file is reported and the loop goes on; any other exception leaves the loop and the
  function.
\<close>

fun load_files ::
  "env \<Rightarrow> string list \<Rightarrow> document list \<Rightarrow> world \<Rightarrow> (exn + document list) \<times> world" where
  "load_files env [] documents w = (Inr documents, w)"
| "load_files env (file_path # rest) documents w =
     (let w1 = w @ [Load (loader_for file_path) file_path] in
      case load env w (loader_for file_path) file_path of
        Inr docs \<Rightarrow>
          load_files env rest (documents @ docs) (w1 @ [Print (loaded_line file_path)])
      | Inl e \<Rightarrow>
          if is_Exception e
          then load_files env rest documents (w1 @ [Print (failed_line file_path e)])
          else (Inl e, w1))"

text \<open>
  The function returns the outcome (\<open>Inr ()\<close> for a normal return), the object state
  it leaves and the trace.
\<close>

definition load_documents ::
  "env \<Rightarrow> chatbot \<Rightarrow> string \<Rightarrow> world \<Rightarrow> (exn + unit) \<times> chatbot \<times> world" where
  "load_documents env self folder_path w =
     (let w1 = w @ [PathExists folder_path] in
      if \<not> path_exists env w folder_path
      then (Inl (ValueError (''Folder not found: '' @ folder_path)), self, w1)
      else
        (let w2 = w1 @ [Glob folder_path] in
         case load_files env (glob env w1 folder_path) [] w2 of
           (Inl e, w3) \<Rightarrow> (Inl e, self, w3)
         | (Inr documents, w3) \<Rightarrow>
             if documents = []
             then (Inl (ValueError ''No valid documents found!''), self, w3)
             else
               (let w4 = w3 @ [SplitDocuments documents] in
                case split_documents env w3 documents of
                  Inl e \<Rightarrow> (Inl e, self, w4)
                | Inr chunks \<Rightarrow>
                    (let w5 = w4 @ [FromDocuments chunks] in
                     case from_documents env w4 chunks of
                       Some e \<Rightarrow> (Inl e, self, w5)
                     | None \<Rightarrow>
                         (Inr (),
                          self\<lparr>vector_db := Some (Chroma chunks)\<rparr>,
                          w5 @ [Print (''[green]'' @ glyph_done
                                        @ '' Documents indexed successfully[/]'')])))))"

subsection \<open>\<^verbatim>\<open>answer_question\<close>\<close>

text \<open>
  \<^verbatim>\<open>doc.metadata.get('source', 'Unknown source')\<close> and the preview of a chunk:
  its first 250 characters, followed by three dots when it has more than 250.
\<close>

definition doc_source :: "document \<Rightarrow> string" where
  "doc_source doc =
     (case map_of (metadata doc) ''source'' of
        Some s \<Rightarrow> s
      | None \<Rightarrow> ''Unknown source'')"

definition doc_preview :: "document \<Rightarrow> string" where
  "doc_preview doc =
     take 250 (page_content doc) @ (if length (page_content doc) > 250 then ''...'' else [])"

text \<open>
  The loop filling the dictionary \<^verbatim>\<open>unique_sources\<close>. A Python dictionary keeps
  its keys in the order of their first assignment, and an assignment to a key that
  is present replaces the value where it stands: this is \<open>AList.update\<close>.
\<close>

fun collect_sources ::
  "(string \<times> source_entry) list \<Rightarrow> document list \<Rightarrow> (string \<times> source_entry) list" where
  "collect_sources unique [] = unique"
| "collect_sources unique (doc # docs) =
     collect_sources
       (AList.update (doc_source doc)
          \<lparr>source = doc_source doc, content = doc_preview doc\<rparr> unique)
       docs"

definition unique_sources :: "document list \<Rightarrow> source_entry list" where
  "unique_sources docs = map snd (collect_sources [] docs)"

definition query_of :: "string \<Rightarrow> string" where
  "query_of question = ''Responda em portugu'' @ e_circumflex @ ''s: '' @ question"

text \<open>The body of the \<^verbatim>\<open>try\<close>: retriever, chain, call of the chain, sources.\<close>

definition answer_try ::
  "env \<Rightarrow> chroma \<Rightarrow> string \<Rightarrow> world \<Rightarrow> (exn + string \<times> source_entry list) \<times> world" where
  "answer_try env db question w =
     (let w1 = w @ [AsRetriever db] in
      case as_retriever env w db of
        Some e \<Rightarrow> (Inl e, w1)
      | None \<Rightarrow>
          (let w2 = w1 @ [FromChainType (Retriever db)] in
           case from_chain_type env w1 (Retriever db) of
             Some e \<Rightarrow> (Inl e, w2)
           | None \<Rightarrow>
               (let qa_chain = RetrievalQA (Retriever db);
                    w3 = w2 @ [Invoke qa_chain (query_of question)] in
                case invoke env w2 qa_chain (query_of question) of
                  Inl e \<Rightarrow> (Inl e, w3)
                | Inr res \<Rightarrow>
                    (Inr (result res, unique_sources (source_documents res)), w3))))"

definition answer_question ::
  "env \<Rightarrow> chatbot \<Rightarrow> string \<Rightarrow> world \<Rightarrow> (exn + string \<times> source_entry list) \<times> world" where
  "answer_question env self question w =
     (case vector_db self of
        None \<Rightarrow> (Inr (''Documents not loaded properly.'', []), w)
      | Some db \<Rightarrow>
          (case answer_try env db question w of
             (Inr r, w') \<Rightarrow> (Inr r, w')
           | (Inl e, w') \<Rightarrow>
               if is_Exception e
               then (Inr (''Sorry, I encountered an error processing your question.'', []),
                     w' @ [Print (''[red]Error processing question: '' @ str_exn e @ ''[/]'')])
               else (Inl e, w')))"

section \<open>The program\<close>

subsection \<open>One turn of the chat loop\<close>

text \<open>The test \<^verbatim>\<open>user_input.lower() in ('exit', 'quit', 'sair')\<close>.\<close>

definition exit_keywords :: "string list" where
  "exit_keywords = [''exit'', ''quit'', ''sair'']"

definition is_exit_command :: "string \<Rightarrow> bool" where
  "is_exit_command user_input = (str_lower user_input \<in> set exit_keywords)"

text \<open>
  The answer panel, and the panel of sources when \<^verbatim>\<open>sources\<close> is not empty.
\<close>

definition show_answer :: "string \<times> source_entry list \<Rightarrow> world \<Rightarrow> world" where
  "show_answer r w =
     (let w1 = w @ [PrintPanel (fst r) (Some (glyph_bulb @ '' Answer'')) ''green''] in
      if snd r \<noteq> []
      then w1 @ [PrintPanel
                  (join newline (map (\<lambda>src. ''[bold]'' @ source src @ ''[/]'') (snd r)))
                  (Some (glyph_books @ '' Source Documents'')) ''blue'']
      else w1)"

text \<open>
  The body of the inner \<^verbatim>\<open>try\<close>. \<open>Inr True\<close> stands for \<^verbatim>\<open>break\<close>,
  \<open>Inr False\<close> for reaching the end of the body.
\<close>

definition chat_try :: "env \<Rightarrow> chatbot \<Rightarrow> world \<Rightarrow> (exn + bool) \<times> world" where
  "chat_try env self w =
     (let w1 = w @ [Prompt] in
      case prompt env w of
        Inl e \<Rightarrow> (Inl e, w1)
      | Inr user_input \<Rightarrow>
          if is_exit_command user_input then (Inr True, w1)
          else
            (case answer_question env self user_input w1 of
               (Inl e, w2) \<Rightarrow> (Inl e, w2)
             | (Inr r, w2) \<Rightarrow> (Inr False, show_answer r w2)))"

datatype control = Continue | Break | Propagate exn

text \<open>
  The handlers of the inner \<^verbatim>\<open>try\<close>: \<^verbatim>\<open>KeyboardInterrupt\<close> prints and breaks,
  an \<^verbatim>\<open>Exception\<close> prints and continues, anything else leaves the loop.
\<close>

definition chat_step :: "env \<Rightarrow> chatbot \<Rightarrow> world \<Rightarrow> control \<times> world" where
  "chat_step env self w =
     (case chat_try env self w of
        (Inr stop, w') \<Rightarrow> (if stop then Break else Continue, w')
      | (Inl e, w') \<Rightarrow>
          if e = KeyboardInterrupt
          then (Break, w' @ [Print (newline @ glyph_stop @ '' Shutting down...'')])
          else if is_Exception e
          then (Continue, w' @ [Print (''[red]Chat error: '' @ str_exn e @ ''[/]'')])
          else (Propagate e, w'))"

subsection \<open>The loop and \<^verbatim>\<open>main\<close>\<close>

text \<open>
  \<^verbatim>\<open>while True\<close> may go on for ever, so the loop is given a number of turns it
  may take. \<open>Running\<close> says that the turns were used up with the loop still going,
  \<open>Returned\<close> that control left normally, \<open>Raised e\<close> that \<open>e\<close> left uncaught.
\<close>

datatype run = Running | Returned | Raised exn

fun chat_loop :: "env \<Rightarrow> chatbot \<Rightarrow> nat \<Rightarrow> world \<Rightarrow> run \<times> world" where
  "chat_loop env self 0 w = (Running, w)"
| "chat_loop env self (Suc n) w =
     (case chat_step env self w of
        (Break, w') \<Rightarrow> (Returned, w')
      | (Continue, w') \<Rightarrow> chat_loop env self n w'
      | (Propagate e, w') \<Rightarrow> (Raised e, w'))"

definition DOCS_PATH :: string where
  "DOCS_PATH = ''./documents''"

text \<open>The body of the outer \<^verbatim>\<open>try\<close>.\<close>

definition main_try :: "env \<Rightarrow> nat \<Rightarrow> world \<Rightarrow> run \<times> world" where
  "main_try env fuel w =
     (case DocumentChatbot env w of
        (Inl e, w1) \<Rightarrow> (Raised e, w1)
      | (Inr chatbot, w1) \<Rightarrow>
          (let w2 = w1 @ [Print (''[bold]'' @ glyph_folder @ '' Loading documents...[/]'')] in
           case load_documents env chatbot DOCS_PATH w2 of
             (Inl e, chatbot', w3) \<Rightarrow> (Raised e, w3)
           | (Inr u, chatbot', w3) \<Rightarrow>
               chat_loop env chatbot' fuel
                 (w3 @ [Print (''[green]'' @ glyph_done @ '' Ready to answer questions![/]''
                                @ newline),
                        PrintPanel (glyph_speech @ '' Chat Mode (type '' @ [CHR 0x27] @ ''exit''
                                      @ [CHR 0x27] @ '' to quit)'')
                          None ''bold blue''])))"

text \<open>
  The outer \<^verbatim>\<open>except Exception\<close> and \<^verbatim>\<open>finally\<close>, applied to the way the body
  ended.
\<close>

definition shutdown_line :: string where
  "shutdown_line = newline @ glyph_red @ '' ChatBot shutdown complete''"

definition main_finish :: "run \<times> world \<Rightarrow> run \<times> world" where
  "main_finish rw =
     (case rw of
        (Running, w) \<Rightarrow> (Running, w)
      | (Returned, w) \<Rightarrow> (Returned, w @ [Print shutdown_line])
      | (Raised e, w) \<Rightarrow>
          if is_Exception e
          then (Returned,
                w @ [Print (''[red]Critical failure: '' @ str_exn e @ ''[/]''),
                     Print shutdown_line])
          else (Raised e, w @ [Print shutdown_line]))"

definition not_running_lines :: "event list" where
  "not_running_lines =
     [Print (''[red]'' @ glyph_cross @ '' Ollama is not running![/]''),
      Print ''Please first run in another terminal:'',
      Print ''[bold yellow]ollama serve[/]'']"

definition start_panel :: event where
  "start_panel = PrintPanel (glyph_wrench @ '' Starting Document ChatBot'') None ''bold blue''"

text \<open>
  \<^verbatim>\<open>main\<close> starts from the empty trace. When the check fails it returns before the
  outer \<^verbatim>\<open>try\<close> is entered, so its \<^verbatim>\<open>finally\<close> does not run.
\<close>

definition main :: "env \<Rightarrow> nat \<Rightarrow> run \<times> world" where
  "main env fuel =
     (let w0 = [start_panel] in
      case check_ollama env w0 of
        (Inl e, w1) \<Rightarrow> (Raised e, w1)
      | (Inr ok, w1) \<Rightarrow>
          if \<not> ok then (Returned, w1 @ not_running_lines)
          else main_finish (main_try env fuel w1))"

section \<open>Reading a trace\<close>

text \<open>
  The events by which the script works on documents or talks to the user: building
  the models, looking at the folder, loading, splitting, indexing, retrieving, asking
  the model, prompting. Console output and the health check are not among them.
\<close>

fun is_work :: "event \<Rightarrow> bool" where
  "is_work (Print _) = False"
| "is_work (PrintPanel _ _ _) = False"
| "is_work RequestsGet = False"
| "is_work _ = True"

text \<open>The two calls that build the index.\<close>

fun is_indexing :: "event \<Rightarrow> bool" where
  "is_indexing (SplitDocuments _) = True"
| "is_indexing (FromDocuments _) = True"
| "is_indexing _ = False"


section \<open>Case variants of a keyword\<close>




section \<open>Sample environments\<close>

text \<open>
  A folder with a PDF and a text file, a backend that answers, and a user who types
  \<open>EXIT\<close> at once.
\<close>

definition sample_docs :: "document list" where
  "sample_docs =
     [\<lparr>page_content = ''alpha'', metadata = [(''source'', ''documents/a.pdf'')]\<rparr>,
      \<lparr>page_content = ''beta'', metadata = [(''page'', ''2'')]\<rparr>,
      \<lparr>page_content = ''gamma'', metadata = [(''source'', ''documents/a.pdf'')]\<rparr>]"


definition sample_env :: env where
  "sample_env =
     \<lparr>requests_get = (\<lambda>w. Inr 200),
      new_embeddings = (\<lambda>w. None),
      new_ollama = (\<lambda>w. None),
      new_text_splitter = (\<lambda>w. None),
      path_exists = (\<lambda>w p. True),
      glob = (\<lambda>w p. [''documents/a.pdf'', ''documents/notes.txt'']),
      load = (\<lambda>w l p. if l = PyPDFLoader then Inr sample_docs
                         else Inl (LibraryError ''unreadable'')),
      split_documents = (\<lambda>w ds. Inr ds),
      from_documents = (\<lambda>w cs. None),
      as_retriever = (\<lambda>w db. None),
      from_chain_type = (\<lambda>w r. None),
      invoke = (\<lambda>w c q. Inr \<lparr>result = ''ok'', source_documents = sample_docs\<rparr>),
      prompt = (\<lambda>w. Inr ''EXIT'')\<rparr>"




text \<open>The same world, with a vector store that cannot be built.\<close>

definition index_failure_env :: env where
  "index_failure_env =
     sample_env\<lparr>from_documents := (\<lambda>w cs. Some (LibraryError ''index failure''))\<rparr>"

text \<open>A folder holding nothing but a file that no loader can read.\<close>

definition unreadable_env :: env where
  "unreadable_env = sample_env\<lparr>glob := (\<lambda>w p. [''documents/notes.txt''])\<rparr>"


section \<open>Helper facts\<close>

lemma check_ollama_eq:
  "check_ollama env w = (Inr (requests_get env w = Inr 200), w @ [RequestsGet])"
  by (cases "requests_get env w") (simp_all add: check_ollama_def check_ollama_try_def)


text \<open>The loop over the files records loads and console lines only.\<close>

lemma load_files_indexing:
  "load_files env files documents w = (r, w') \<Longrightarrow> filter is_indexing w' = filter is_indexing w"
proof (induction files arbitrary: documents w)
  case Nil
  then show ?case by simp
next
  case (Cons f files)
  show ?case
  proof (cases "load env w (loader_for f) f")
    case (Inr docs)
    with Cons.prems have "load_files env files (documents @ docs)
        (w @ [Load (loader_for f) f, Print (loaded_line f)]) = (r, w')"
      by (simp add: Let_def)
    from Cons.IH [OF this] show ?thesis by simp
  next
    case (Inl e)
    show ?thesis
    proof (cases "is_Exception e")
      case True
      with Inl Cons.prems have "load_files env files documents
          (w @ [Load (loader_for f) f, Print (failed_line f e)]) = (r, w')"
        by (simp add: Let_def)
      from Cons.IH [OF this] show ?thesis by simp
    next
      case False
      with Inl Cons.prems show ?thesis by (auto simp: Let_def)
    qed
  qed
qed

lemma sample_docs_nonempty: "sample_docs \<noteq> []"
  by (simp add: sample_docs_def)

lemmas sample_load_simps =
  sample_env_def loader_for_def path_suffix_def path_name_def loaders_def
  str_lower_def lower_char_def Let_def

subsection \<open>The dictionary of sources\<close>







subsection \<open>Letter case\<close>












section \<open>The health check\<close>

text \<open>
  C10. \<^verbatim>\<open>check_ollama\<close> never raises: whatever the request does, the function
  returns a truth value, after exactly one request. The value is \<^verbatim>\<open>True\<close> exactly
  when the request came back with status code 200; any other status code and any
  raised exception, also one outside \<^verbatim>\<open>Exception\<close>, give \<^verbatim>\<open>False\<close>.
\<close>

theorem check_ollama_total:
  "check_ollama env w = (Inr (requests_get env w = Inr 200), w @ [RequestsGet])"
  by (simp add: check_ollama_def check_ollama_try_def split: sum.splits)

theorem check_ollama_total_witness:
  "check_ollama sample_env [] = (Inr True, [RequestsGet])
   \<and> check_ollama (sample_env\<lparr>requests_get := (\<lambda>w. Inr 204)\<rparr>) [] = (Inr False, [RequestsGet])
   \<and> check_ollama (sample_env\<lparr>requests_get := (\<lambda>w. Inl KeyboardInterrupt)\<rparr>) []
       = (Inr False, [RequestsGet])"
  using check_ollama_total [of sample_env "[]"]
    check_ollama_total [of "sample_env\<lparr>requests_get := (\<lambda>w. Inr 204)\<rparr>" "[]"]
    check_ollama_total [of "sample_env\<lparr>requests_get := (\<lambda>w. Inl KeyboardInterrupt)\<rparr>" "[]"]
  by (simp add: sample_env_def)

text \<open>
  C7. When the health check at the start of \<^verbatim>\<open>main\<close> does not come back with
  status 200 (another status, or any raised error), \<^verbatim>\<open>main\<close> returns after the
  start panel, the request and the three lines of the "Ollama is not running"
  instruction: its trace holds no call that builds the models, reads the folder,
  loads, splits, indexes, retrieves or prompts.
\<close>

theorem main_backend_unreachable:
  "requests_get env [start_panel] \<noteq> Inr 200 \<Longrightarrow>
   main env fuel = (Returned, [start_panel, RequestsGet] @ not_running_lines)
   \<and> filter is_work (snd (main env fuel)) = []"
  by (simp add: main_def check_ollama_eq Let_def start_panel_def not_running_lines_def)

theorem main_backend_unreachable_witness:
  "requests_get (sample_env\<lparr>requests_get := (\<lambda>w. Inl (LibraryError ''timed out''))\<rparr>)
      [start_panel] \<noteq> Inr 200
   \<and> main (sample_env\<lparr>requests_get := (\<lambda>w. Inl (LibraryError ''timed out''))\<rparr>) 5 =
       (Returned, [start_panel, RequestsGet] @ not_running_lines)"
  using main_backend_unreachable
    [of "sample_env\<lparr>requests_get := (\<lambda>w. Inl (LibraryError ''timed out''))\<rparr>" 5]
  by (simp add: sample_env_def)

section \<open>Asking before the documents are indexed\<close>

text \<open>
  C2. With \<^verbatim>\<open>vector_db\<close> still \<^verbatim>\<open>None\<close>, as the constructor leaves it,
  \<^verbatim>\<open>answer_question\<close> returns the fixed text "Documents not loaded properly." with
  an empty list of sources for every question; it raises nothing, calls nothing and
  prints nothing.
\<close>

theorem answer_question_not_loaded:
  "(vector_db self = None \<longrightarrow>
      answer_question env self question w = (Inr (''Documents not loaded properly.'', []), w))
   \<and> (DocumentChatbot env w0 = (Inr fresh, w1) \<longrightarrow>
      answer_question env fresh question w = (Inr (''Documents not loaded properly.'', []), w))"
  by (auto simp: answer_question_def DocumentChatbot_def init_try_def Let_def
      split: option.splits prod.splits sum.splits if_splits)

theorem answer_question_not_loaded_witness:
  "vector_db \<lparr>vector_db = None\<rparr> = None
   \<and> DocumentChatbot sample_env [] =
       (Inr \<lparr>vector_db = None\<rparr>,
        [NewEmbeddings, NewOllama, NewTextSplitter,
         Print (''[green]'' @ glyph_done @ '' Models loaded successfully[/]'')])
   \<and> answer_question sample_env \<lparr>vector_db = None\<rparr> ''What is in the report?'' [] =
       (Inr (''Documents not loaded properly.'', []), [])"
  using answer_question_not_loaded
    [of "\<lparr>vector_db = None\<rparr>" sample_env "''What is in the report?''" "[]" "[]"
        "\<lparr>vector_db = None\<rparr>"
        "[NewEmbeddings, NewOllama, NewTextSplitter,
          Print (''[green]'' @ glyph_done @ '' Models loaded successfully[/]'')]"]
  by (simp add: DocumentChatbot_def init_try_def sample_env_def)

section \<open>Loading the folder\<close>

text \<open>
  C5. For a folder path that does not exist, \<^verbatim>\<open>load_documents\<close> raises the
  \<^verbatim>\<open>ValueError\<close> "Folder not found: ..." right after the existence test: the
  folder is not listed, no file is handed to a loader, nothing is split or indexed,
  and the object is left as it was.
\<close>

theorem load_documents_folder_not_found:
  "\<not> path_exists env w folder_path \<Longrightarrow>
   load_documents env self folder_path w =
     (Inl (ValueError (''Folder not found: '' @ folder_path)), self, w @ [PathExists folder_path])"
  by (simp add: load_documents_def)

theorem load_documents_folder_not_found_witness:
  "\<not> path_exists (sample_env\<lparr>path_exists := (\<lambda>w p. False)\<rparr>) [] ''./documents''
   \<and> load_documents (sample_env\<lparr>path_exists := (\<lambda>w p. False)\<rparr>) \<lparr>vector_db = None\<rparr>
         ''./documents'' [] =
       (Inl (ValueError ''Folder not found: ./documents''), \<lparr>vector_db = None\<rparr>,
        [PathExists ''./documents''])"
  using load_documents_folder_not_found
    [of "sample_env\<lparr>path_exists := (\<lambda>w p. False)\<rparr>" "[]" "''./documents''"
        "\<lparr>vector_db = None\<rparr>"]
  by (simp add: sample_env_def)

text \<open>
  C4. For a folder that exists: when the loop over its entries ends with no document
  at all, \<^verbatim>\<open>load_documents\<close> raises the \<^verbatim>\<open>ValueError\<close> "No valid documents
  found!" (the empty-corpus failure). The trace ends where the loop ended, so nothing
  was split or indexed, and the object is left as it was.
\<close>

theorem load_documents_empty_corpus:
  assumes "path_exists env w folder_path"
    and "load_files env (glob env (w @ [PathExists folder_path]) folder_path) []
           (w @ [PathExists folder_path, Glob folder_path]) = (Inr [], w')"
  shows "load_documents env self folder_path w =
           (Inl (ValueError ''No valid documents found!''), self, w')
         \<and> filter is_indexing w' = filter is_indexing w"
proof -
  from load_files_indexing [OF assms(2)]
  have "filter is_indexing w' = filter is_indexing w" by simp
  moreover from assms
  have "load_documents env self folder_path w =
          (Inl (ValueError ''No valid documents found!''), self, w')"
    by (simp add: load_documents_def Let_def)
  ultimately show ?thesis by simp
qed

theorem load_documents_empty_corpus_witness:
  "path_exists unreadable_env [] ''./documents''
   \<and> load_files unreadable_env (glob unreadable_env [PathExists ''./documents''] ''./documents'')
        [] [PathExists ''./documents'', Glob ''./documents''] =
       (Inr [],
        [PathExists ''./documents'', Glob ''./documents'',
         Load UnstructuredFileLoader ''documents/notes.txt'',
         Print (failed_line ''documents/notes.txt'' (LibraryError ''unreadable''))])
   \<and> load_documents unreadable_env \<lparr>vector_db = None\<rparr> ''./documents'' [] =
       (Inl (ValueError ''No valid documents found!''), \<lparr>vector_db = None\<rparr>,
        [PathExists ''./documents'', Glob ''./documents'',
         Load UnstructuredFileLoader ''documents/notes.txt'',
         Print (failed_line ''documents/notes.txt'' (LibraryError ''unreadable''))])"
proof -
  have ex: "path_exists unreadable_env [] ''./documents''"
    by (simp add: unreadable_env_def sample_env_def)
  have lf: "load_files unreadable_env
        (glob unreadable_env ([] @ [PathExists ''./documents'']) ''./documents'') []
        ([] @ [PathExists ''./documents'', Glob ''./documents'']) =
       (Inr [],
        [PathExists ''./documents'', Glob ''./documents'',
         Load UnstructuredFileLoader ''documents/notes.txt'',
         Print (failed_line ''documents/notes.txt'' (LibraryError ''unreadable''))])"
    by (simp add: unreadable_env_def sample_load_simps)
  from load_documents_empty_corpus [OF ex lf, of "\<lparr>vector_db = None\<rparr>"] ex lf
  show ?thesis by simp
qed




section \<open>A failed load leaves the object as it was\<close>

text \<open>
  C9. However \<^verbatim>\<open>load_documents\<close> fails (missing folder, empty corpus, an error
  from the splitter or from the vector store, an interrupt), the object it leaves is
  the object it was given; so with \<^verbatim>\<open>vector_db\<close> still \<^verbatim>\<open>None\<close> every later
  \<^verbatim>\<open>answer_question\<close> gives the "not loaded" answer. The object changes only on a
  normal return, after the splitter and the vector store have both succeeded, and
  then \<^verbatim>\<open>vector_db\<close> is the store built from the chunks.
\<close>

theorem load_documents_atomic:
  assumes "load_documents env self folder_path w = (r, self', w')"
  shows "(\<forall>e. r = Inl e \<longrightarrow>
            self' = self
            \<and> (vector_db self = None \<longrightarrow>
                 (\<forall>question v. answer_question env self' question v =
                    (Inr (''Documents not loaded properly.'', []), v))))
         \<and> (self' \<noteq> self \<longrightarrow>
              r = Inr ()
              \<and> (\<exists>w3 documents chunks.
                    split_documents env w3 documents = Inr chunks
                    \<and> from_documents env (w3 @ [SplitDocuments documents]) chunks = None
                    \<and> self' = self\<lparr>vector_db := Some (Chroma chunks)\<rparr>
                    \<and> w' = w3 @ [SplitDocuments documents, FromDocuments chunks,
                          Print (''[green]'' @ glyph_done
                                  @ '' Documents indexed successfully[/]'')]))"
  using assms
  by (auto simp: load_documents_def Let_def answer_question_def
      split: if_splits prod.splits sum.splits option.splits)

theorem load_documents_atomic_witness:
  "fst (load_documents index_failure_env \<lparr>vector_db = None\<rparr> ''./documents'' []) =
     Inl (LibraryError ''index failure'')
   \<and> fst (snd (load_documents index_failure_env \<lparr>vector_db = None\<rparr> ''./documents'' [])) =
       \<lparr>vector_db = None\<rparr>
   \<and> answer_question index_failure_env
        (fst (snd (load_documents index_failure_env \<lparr>vector_db = None\<rparr> ''./documents'' [])))
        ''What is alpha?'' [] = (Inr (''Documents not loaded properly.'', []), [])
   \<and> fst (snd (load_documents sample_env \<lparr>vector_db = None\<rparr> ''./documents'' [])) =
       \<lparr>vector_db = Some (Chroma sample_docs)\<rparr>"
proof -
  have run: "fst (load_documents index_failure_env \<lparr>vector_db = None\<rparr> ''./documents'' []) =
      Inl (LibraryError ''index failure'')"
    by (simp add: load_documents_def index_failure_env_def sample_load_simps
        sample_docs_nonempty)
  have ok: "fst (snd (load_documents sample_env \<lparr>vector_db = None\<rparr> ''./documents'' [])) =
       \<lparr>vector_db = Some (Chroma sample_docs)\<rparr>"
    by (simp add: load_documents_def sample_load_simps sample_docs_nonempty)
  have eq: "load_documents index_failure_env \<lparr>vector_db = None\<rparr> ''./documents'' [] =
      (fst (load_documents index_failure_env \<lparr>vector_db = None\<rparr> ''./documents'' []),
       fst (snd (load_documents index_failure_env \<lparr>vector_db = None\<rparr> ''./documents'' [])),
       snd (snd (load_documents index_failure_env \<lparr>vector_db = None\<rparr> ''./documents'' [])))"
    by simp
  have kept: "fst (snd (load_documents index_failure_env \<lparr>vector_db = None\<rparr> ''./documents'' []))
        = \<lparr>vector_db = None\<rparr>
      \<and> (vector_db \<lparr>vector_db = None\<rparr> = None \<longrightarrow>
           (\<forall>question v. answer_question index_failure_env
              (fst (snd (load_documents index_failure_env \<lparr>vector_db = None\<rparr>
                           ''./documents'' [])))
              question v = (Inr (''Documents not loaded properly.'', []), v)))"
    using load_documents_atomic [OF eq] run by blast
  from kept have same: "fst (snd (load_documents index_failure_env \<lparr>vector_db = None\<rparr>
      ''./documents'' [])) = \<lparr>vector_db = None\<rparr>"
    by (rule conjunct1)
  have none: "vector_db \<lparr>vector_db = None\<rparr> = None"
    by simp
  from kept none have sentinel: "answer_question index_failure_env
      (fst (snd (load_documents index_failure_env \<lparr>vector_db = None\<rparr> ''./documents'' [])))
      ''What is alpha?'' [] = (Inr (''Documents not loaded properly.'', []), [])"
    by blast
  show ?thesis
    by (intro conjI) (rule run, rule same, rule sentinel, rule ok)
qed

section \<open>Answering a question\<close>






section \<open>Leaving the chat\<close>



end
